theory Spec2Isabelle
  imports Complex_Main
begin

section \<open>Data model\<close>

text \<open>
  The development embeds \<^verbatim>\<open>src/pharynx_redox/image_processing.py\<close>.
  Python exceptions are values of \<open>error\<close>; a function that may raise returns
  \<open>error + 'a\<close> with \<open>Inl\<close> for the exception.  Floating point numbers are
  idealised as real numbers (no rounding, no NaN); where numpy returns an infinity
  instead of raising, the case is written out.
\<close>

datatype error =
  IndexError | ValueError | KeyError | AttributeError | TypeError | ZeroDivisionError

text \<open>A two-dimensional image is a list of rows; a mask is a boolean image.\<close>

type_synonym image = "real list list"
type_synonym mask = "bool list list"

text \<open>
  numpy arrays returned by the sampler: one-dimensional, or two-dimensional with the
  shape kept explicitly (a band may have zero rows and still \<open>n\<close> columns).
\<close>

datatype ndarray = Arr1 "real list" | Arr2 nat nat "real list list"

fun shape :: "ndarray \<Rightarrow> int list" where
  "shape (Arr1 zs) = [int (length zs)]"
| "shape (Arr2 r c rows) = [int r, int c]"

fun n_elements :: "ndarray \<Rightarrow> nat" where
  "n_elements (Arr1 zs) = length zs"
| "n_elements (Arr2 r c rows) = r * c"

text \<open>
  A Python number that is either an \<open>int\<close> or a \<open>float\<close>: the sampler's
  \<open>thickness\<close> is declared \<open>float\<close> and defaults to \<open>0\<close> in the batch form.
\<close>

datatype number = PyInt int | PyFloat real

fun number_value :: "number \<Rightarrow> real" where
  "number_value (PyInt k) = real_of_int k"
| "number_value (PyFloat r) = r"

section \<open>numpy polynomials\<close>

text \<open>
  \<open>numpy.polynomial.Polynomial\<close>: coefficients in the window variable, together with
  the domain and the window of the affine change of variable.
\<close>

record polynomial =
  coef :: "real list"
  domain :: "real \<times> real"
  window :: "real \<times> real"

text \<open>
  \<open>polyutils.mapparms(old, new)\<close>: offset and scale of the affine map that takes the
  interval \<open>old\<close> onto \<open>new\<close>.
\<close>

definition mapparms :: "real \<times> real \<Rightarrow> real \<times> real \<Rightarrow> real \<times> real" where
  "mapparms old new =
     (let oldlen = snd old - fst old;
          newlen = snd new - fst new
      in ((snd old * fst new - fst old * snd new) / oldlen, newlen / oldlen))"

fun polyval :: "real list \<Rightarrow> real \<Rightarrow> real" where
  "polyval [] x = 0"
| "polyval (c # cs) x = c + x * polyval cs x"

definition poly_call :: "polynomial \<Rightarrow> real \<Rightarrow> real" where
  "poly_call p x = (case mapparms (domain p) (window p) of (off, scl) \<Rightarrow> polyval (coef p) (off + scl * x))"

definition polyder :: "real list \<Rightarrow> real \<Rightarrow> real list" where
  "polyder c scl =
     (if length c \<le> 1 then [0]
      else map (\<lambda>j. real j * (scl * (c ! j))) [1..<length c])"

definition deriv :: "polynomial \<Rightarrow> polynomial" where
  "deriv p = p\<lparr>coef := polyder (coef p) (snd (mapparms (domain p) (window p)))\<rparr>"

text \<open>
  \<open>np.linspace(a, b, num)\<close> for an integer \<open>num\<close>: a negative count raises
  \<open>ValueError\<close>; one sample is the start point.
\<close>

definition linspace_pts :: "real \<Rightarrow> real \<Rightarrow> nat \<Rightarrow> real list" where
  "linspace_pts a b n = map (\<lambda>i. a + real i * ((b - a) / real (n - 1))) [0..<n]"

definition np_linspace :: "real \<Rightarrow> real \<Rightarrow> int \<Rightarrow> error + real list" where
  "np_linspace a b num =
     (if num < 0 then Inl ValueError else Inr (linspace_pts a b (nat num)))"

text \<open>
  \<open>mid.linspace(n=n_points)\<close>: on \<open>None\<close> the attribute lookup raises
  \<open>AttributeError\<close>; otherwise the sample abscissae over the polynomial's domain and
  the polynomial's values there.
\<close>

definition poly_linspace ::
  "polynomial option \<Rightarrow> int \<Rightarrow> error + (real list \<times> real list)" where
  "poly_linspace mid n =
     (case mid of
        None \<Rightarrow> Inl AttributeError
      | Some p \<Rightarrow>
          (case np_linspace (fst (domain p)) (snd (domain p)) n of
             Inl e \<Rightarrow> Inl e
           | Inr xs \<Rightarrow> Inr (xs, map (poly_call p) xs)))"

section \<open>Library routines\<close>

text \<open>
  The library routines the code calls, taken as parameters:
  \<^item> \<open>map_coordinate order img x y\<close>: the value \<open>scipy.ndimage.map_coordinates\<close>
    interpolates in \<open>img\<close> at one coordinate pair with a spline of the given order;
  \<^item> \<open>norm_pdf x scale\<close>: \<open>scipy.stats.norm.pdf(x, scale=scale)\<close>;
  \<^item> \<open>float_index r\<close>: what \<open>np.linspace\<close> makes of a sample count that is a
    \<open>float\<close> (numpy before 1.18 truncates it with a deprecation warning, later
    versions raise \<open>TypeError\<close>);
  \<^item> \<open>lstsq xs ys deg\<close>: the coefficients of the least-squares polynomial of degree
    \<open>deg\<close> through the points, as \<open>Polynomial.fit\<close> solves for them;
  \<^item> \<open>orientation coords\<close>: \<open>regionprops(...)[0].orientation\<close> of the region with
    these pixels;
  \<^item> \<open>rotate_image img translation angle\<close> and \<open>rotate_mask\<close>: the repository's
    \<open>rotate\<close> (a \<open>skimage\<close> warp followed by a rotation), with bilinear
    interpolation on an image and nearest-neighbour interpolation on a mask.
\<close>

record library =
  map_coordinate :: "nat \<Rightarrow> image \<Rightarrow> real \<Rightarrow> real \<Rightarrow> real"
  norm_pdf :: "real \<Rightarrow> real \<Rightarrow> real"
  float_index :: "real \<Rightarrow> error + int"
  lstsq :: "real list \<Rightarrow> real list \<Rightarrow> nat \<Rightarrow> real list"
  orientation :: "(nat \<times> nat) list \<Rightarrow> real"
  rotate_image :: "image \<Rightarrow> real \<times> real \<Rightarrow> real \<Rightarrow> image"
  rotate_mask :: "mask \<Rightarrow> real \<times> real \<Rightarrow> real \<Rightarrow> mask"

section \<open>Labelled regions\<close>

text \<open>
  \<open>measure.regionprops(measure.label(img))[0]\<close> on a binary mask.  \<open>label\<close> numbers the
  connected components (8-neighbourhood in two dimensions) in raster order of their
  first pixel, so the region at index \<open>0\<close> is the component of the first foreground
  pixel; a mask with no foreground has no region and the index raises
  \<open>IndexError\<close>.  On an array with no element at all \<open>regionprops\<close> itself raises
  \<open>ValueError\<close>: it takes the maximum label of an empty array.  A region is the list
  of its pixels \<open>(row, column)\<close> in raster order.
\<close>

definition foreground :: "mask \<Rightarrow> (nat \<times> nat) list" where
  "foreground img =
     concat (map (\<lambda>r. map (\<lambda>c. (r, c)) (filter (\<lambda>c. img ! r ! c) [0..<length (img ! r)]))
               [0..<length img])"

definition adjacent8 :: "nat \<times> nat \<Rightarrow> nat \<times> nat \<Rightarrow> bool" where
  "adjacent8 p q =
     (fst p \<le> Suc (fst q) \<and> fst q \<le> Suc (fst p) \<and> snd p \<le> Suc (snd q) \<and> snd q \<le> Suc (snd p))"

definition grow :: "(nat \<times> nat) list \<Rightarrow> (nat \<times> nat) list \<Rightarrow> (nat \<times> nat) list" where
  "grow fg reg = filter (\<lambda>q. list_ex (adjacent8 q) reg) fg"

definition regionprops_first :: "mask \<Rightarrow> error + (nat \<times> nat) list" where
  "regionprops_first img =
     (if concat img = [] then Inl ValueError
      else (case foreground img of
              [] \<Rightarrow> Inl IndexError
            | p # ps \<Rightarrow> Inr ((grow (p # ps) ^^ length (p # ps)) [p])))"

text \<open>\<open>bbox\<close> is \<open>(min_row, min_col, max_row, max_col)\<close>, the maxima exclusive.\<close>

definition bbox :: "(nat \<times> nat) list \<Rightarrow> int \<times> int \<times> int \<times> int" where
  "bbox cs =
     (int (Min (set (map fst cs))), int (Min (set (map snd cs))),
      int (Max (set (map fst cs))) + 1, int (Max (set (map snd cs))) + 1)"

text \<open>
  \<open>get_area_of_largest_object\<close>: the area of the region at index \<open>0\<close>;
  \<open>except IndexError\<close> gives \<open>0\<close> and any other exception propagates.
\<close>

definition get_area_of_largest_object :: "mask \<Rightarrow> error + nat" where
  "get_area_of_largest_object S =
     (case regionprops_first S of
        Inl e \<Rightarrow> (if e = IndexError then Inr 0 else Inl e)
      | Inr cs \<Rightarrow> Inr (length cs))"

section \<open>Midline fitting\<close>

text \<open>
  \<open>Polynomial.fit(x, y, deg, domain=interval)\<close>: the fit is done in the window variable
  and the result carries the domain it was given.
\<close>

definition Polynomial_fit ::
  "library \<Rightarrow> real list \<Rightarrow> real list \<Rightarrow> int \<Rightarrow> real \<times> real \<Rightarrow> error + polynomial" where
  "Polynomial_fit L x y deg interval =
     (if deg < 0 then Inl ValueError
      else if x = [] then Inl TypeError
      else (case mapparms interval (- 1, 1) of
              (off, scl) \<Rightarrow>
                Inr \<lparr>coef = lstsq L (map (\<lambda>v. off + scl * v) x) y (nat deg),
                     domain = interval, window = (- 1, 1)\<rparr>))"

text \<open>
  \<open>calculate_midline\<close>: \<open>except IndexError\<close> turns the missing region into \<open>None\<close>;
  any other exception propagates.
\<close>

definition calculate_midline ::
  "library \<Rightarrow> mask \<Rightarrow> int \<Rightarrow> int \<Rightarrow> error + polynomial option" where
  "calculate_midline L rot_seg_img degree pad =
     (case regionprops_first rot_seg_img of
        Inl e \<Rightarrow> (if e = IndexError then Inr None else Inl e)
      | Inr rp \<Rightarrow>
          (let xs = map (\<lambda>c. real (snd c)) rp;
               ys = map (\<lambda>c. real (fst c)) rp
           in case bbox rp of
                (left_bound, u, v, right_bound) \<Rightarrow>
                  (case Polynomial_fit L xs ys degree
                          (real_of_int (left_bound - pad), real_of_int (right_bound + pad)) of
                     Inl e \<Rightarrow> (if e = IndexError then Inr None else Inl e)
                   | Inr p \<Rightarrow> Inr (Some p))))"

section \<open>Image stacks\<close>

text \<open>
  A labelled array over \<open>(animal, wavelength, pair)\<close>: the size of the animal axis,
  the coordinate labels of the other two axes and the frame stored at each index.
  Looking up a label that is not there raises \<open>KeyError\<close>.
\<close>

record 'a stack =
  animals :: nat
  wavelengths :: "string list"
  pairs :: "nat list"
  frames :: "nat \<times> string \<times> nat \<Rightarrow> 'a option"

definition frame_at :: "'a stack \<Rightarrow> nat \<times> string \<times> nat \<Rightarrow> error + 'a" where
  "frame_at s k = (case frames s k of None \<Rightarrow> Inl KeyError | Some v \<Rightarrow> Inr v)"

definition set_frame :: "'a stack \<Rightarrow> nat \<times> string \<times> nat \<Rightarrow> 'a \<Rightarrow> 'a stack" where
  "set_frame s k v = s\<lparr>frames := (frames s)(k \<mapsto> v)\<rparr>"

text \<open>
  The indices in the order of
  \<^verbatim>\<open>for img_idx in range(animal.size): for wvl in wavelength: for pair in pair:\<close>
\<close>

definition loop_indices :: "'a stack \<Rightarrow> (nat \<times> string \<times> nat) list" where
  "loop_indices s =
     concat (map (\<lambda>a. concat (map (\<lambda>w. map (\<lambda>p. (a, w, p)) (pairs s)) (wavelengths s)))
               [0..<animals s])"

definition well_formed :: "'a stack \<Rightarrow> bool" where
  "well_formed s = (dom (frames s) = set (loop_indices s))"

text \<open>A loop whose body may raise: the first exception ends it.\<close>

fun run_steps :: "('k \<Rightarrow> 's \<Rightarrow> error + 's) \<Rightarrow> 'k list \<Rightarrow> 's \<Rightarrow> error + 's" where
  "run_steps f [] s = Inr s"
| "run_steps f (k # ks) s =
     (case f k s of Inl e \<Rightarrow> Inl e | Inr s' \<Rightarrow> run_steps f ks s')"

section \<open>Pose normalisation\<close>

text \<open>\<open>np.mean(np.nonzero(reference_seg), axis=1)\<close>: mean row and mean column.\<close>

definition mean_nonzero :: "mask \<Rightarrow> real \<times> real" where
  "mean_nonzero img =
     (let cs = foreground img
      in (sum_list (map (\<lambda>c. real (fst c)) cs) / real (length cs),
          sum_list (map (\<lambda>c. real (snd c)) cs) / real (length cs)))"

text \<open>
  One iteration of the innermost loop of \<open>center_and_rotate_pharynxes\<close>.  The state
  is the pair of working copies \<open>(fl_rotated_stack, seg_rotated_stack)\<close>; the
  reference mask and the image are read from the arguments, the mask to rotate from
  the working copy.
\<close>

definition rotate_step ::
  "library \<Rightarrow> nat \<times> nat \<Rightarrow> image stack \<Rightarrow> mask stack \<Rightarrow> string \<Rightarrow> nat \<times> string \<times> nat \<Rightarrow>
     image stack \<times> mask stack \<Rightarrow> error + image stack \<times> mask stack" where
  "rotate_step L img_center fl_images seg_images reference_wavelength k st =
     (case k of (img_idx, wvl, pair) \<Rightarrow>
     (case frame_at seg_images (img_idx, reference_wavelength, pair) of
        Inl e \<Rightarrow> Inl e
      | Inr reference_seg \<Rightarrow>
     (case frame_at fl_images (img_idx, wvl, pair) of
        Inl e \<Rightarrow> Inl e
      | Inr img \<Rightarrow>
     (case frame_at (snd st) (img_idx, wvl, pair) of
        Inl e \<Rightarrow> Inl e
      | Inr seg \<Rightarrow>
     (case regionprops_first reference_seg of
        Inl e \<Rightarrow> (if e = IndexError then Inl ValueError else Inl e)
      | Inr props \<Rightarrow>
          (case mean_nonzero reference_seg of
             (pharynx_center_y, pharynx_center_x) \<Rightarrow>
               (let pharynx_orientation = orientation L props;
                    translation =
                      (- (real (snd img_center) - pharynx_center_x),
                       - (real (fst img_center) - pharynx_center_y));
                    rotated_img = rotate_image L img translation pharynx_orientation;
                    rotated_seg = rotate_mask L seg translation pharynx_orientation
                in Inr (set_frame (fst st) (img_idx, wvl, pair) rotated_img,
                        set_frame (snd st) (img_idx, wvl, pair) rotated_seg))))))))"

text \<open>
  The reference mask read at a loop index has no foreground pixel.
\<close>

definition no_reference_object :: "mask stack \<Rightarrow> string \<Rightarrow> nat \<times> string \<times> nat \<Rightarrow> bool" where
  "no_reference_object seg_images reference_wavelength k =
     (case frames seg_images (fst k, reference_wavelength, snd (snd k)) of
        None \<Rightarrow> False
      | Some m \<Rightarrow> foreground m = [])"

text \<open>
  \<open>center_and_rotate_pharynxes\<close>; \<open>y_size\<close> and \<open>x_size\<close> are \<open>fl_images.y.size\<close>
  and \<open>fl_images.x.size\<close>.  The blurred copy the source builds before the loop is
  never read and is left out.
\<close>

definition center_and_rotate_pharynxes ::
  "library \<Rightarrow> nat \<Rightarrow> nat \<Rightarrow> image stack \<Rightarrow> mask stack \<Rightarrow> string \<Rightarrow>
     error + image stack \<times> mask stack" where
  "center_and_rotate_pharynxes L y_size x_size fl_images seg_images reference_wavelength =
     (let img_center = (y_size div 2, x_size div 2);
          fl_rotated_stack = fl_images;
          seg_rotated_stack = seg_images
      in run_steps (rotate_step L img_center fl_images seg_images reference_wavelength)
           (loop_indices fl_images) (fl_rotated_stack, seg_rotated_stack))"

section \<open>Sampling under a midline\<close>

subsection \<open>Normal segments and their orientation\<close>

text \<open>
  The four arrays \<open>xs0, xs1, ys0, ys1\<close> of \<open>measure_under_midline\<close>: the end points
  of the normal segment through each midline point.
\<close>

record endpoints =
  xs0 :: "real list"
  xs1 :: "real list"
  ys0 :: "real list"
  ys1 :: "real list"

text \<open>
  \<open>normal_thetas = np.arctan(-1 / der(xs))\<close>.  numpy does not raise on a zero
  derivative: the quotient is an infinity and its arc tangent a right angle.
\<close>

definition normal_theta :: "real \<Rightarrow> real" where
  "normal_theta d = (if d = 0 then - (pi / 2) else arctan (- 1 / d))"

definition normal_segments ::
  "polynomial \<Rightarrow> number \<Rightarrow> real list \<Rightarrow> real list \<Rightarrow> endpoints" where
  "normal_segments mid thickness xs ys =
     (let der = deriv mid;
          normal_thetas = map (\<lambda>x. normal_theta (poly_call der x)) xs;
          mag = number_value thickness / 2;
          x0 = map (\<lambda>t. cos t * mag) normal_thetas;
          y0 = map (\<lambda>t. sin t * mag) normal_thetas;
          x1 = map (\<lambda>t. cos t * - mag) normal_thetas;
          y1 = map (\<lambda>t. sin t * - mag) normal_thetas
      in \<lparr>xs0 = map2 (+) xs x0, xs1 = map2 (+) xs x1,
          ys0 = map2 (+) ys y0, ys1 = map2 (+) ys y1\<rparr>)"

text \<open>
  The body of the loop
  \<^verbatim>\<open>for y0, y1, x0, x1, i in zip(ys0, ys1, xs0, xs1, range(len(xs0))): if y0 < y1: ...\<close>
  at index \<open>i\<close>: the values compared are those the arrays hold when the iteration
  starts, and the swap writes position \<open>i\<close> of all four arrays.
\<close>

definition swap_step :: "nat \<Rightarrow> endpoints \<Rightarrow> endpoints" where
  "swap_step i s =
     (if ys0 s ! i < ys1 s ! i
      then \<lparr>xs0 = (xs0 s)[i := xs1 s ! i], xs1 = (xs1 s)[i := xs0 s ! i],
            ys0 = (ys0 s)[i := ys1 s ! i], ys1 = (ys1 s)[i := ys0 s ! i]\<rparr>
      else s)"

text \<open>\<open>zip\<close> stops with its shortest argument.\<close>

definition zip_length :: "endpoints \<Rightarrow> nat" where
  "zip_length s =
     min (length (ys0 s)) (min (length (ys1 s)) (min (length (xs0 s)) (length (xs1 s))))"

definition swap_endpoints :: "endpoints \<Rightarrow> endpoints" where
  "swap_endpoints s = fold swap_step [0..<zip_length s] s"

text \<open>What one pass over the first \<open>k\<close> indices has done at index \<open>j\<close>.\<close>

definition swapped_at :: "endpoints \<Rightarrow> nat \<Rightarrow> real \<times> real \<times> real \<times> real" where
  "swapped_at s j =
     (if ys0 s ! j < ys1 s ! j
      then (xs1 s ! j, xs0 s ! j, ys1 s ! j, ys0 s ! j)
      else (xs0 s ! j, xs1 s ! j, ys0 s ! j, ys1 s ! j))"

definition at_index :: "endpoints \<Rightarrow> nat \<Rightarrow> real \<times> real \<times> real \<times> real" where
  "at_index s j = (xs0 s ! j, xs1 s ! j, ys0 s ! j, ys1 s ! j)"

subsection \<open>The sampler\<close>

text \<open>The sample count \<open>num\<close> of \<open>np.linspace\<close>: an index, and not negative.\<close>

definition sample_count :: "library \<Rightarrow> number \<Rightarrow> error + nat" where
  "sample_count L num =
     (case (case num of PyInt k \<Rightarrow> Inr k | PyFloat r \<Rightarrow> float_index L r) of
        Inl e \<Rightarrow> Inl e
      | Inr k \<Rightarrow> if k < 0 then Inl ValueError else Inr (nat k))"

text \<open>
  \<open>np.linspace(starts, stops, num)\<close> with array end points: row \<open>j\<close> holds the
  \<open>j\<close>-th sample of every segment, so the result has shape \<open>(num, len(starts))\<close>.
\<close>

definition np_linspace_rows ::
  "library \<Rightarrow> real list \<Rightarrow> real list \<Rightarrow> number \<Rightarrow> error + real list list" where
  "np_linspace_rows L starts stops num =
     (case sample_count L num of
        Inl e \<Rightarrow> Inl e
      | Inr k \<Rightarrow>
          Inr (map (\<lambda>j. map2 (\<lambda>a b. a + real j * ((b - a) / real (k - 1))) starts stops)
                 [0..<k]))"

text \<open>
  \<open>np.average(a, axis=0, weights=w)\<close> on arrays of \<open>n\<close> columns: a column whose
  weights sum to zero raises \<open>ZeroDivisionError\<close>.
\<close>

definition np_average_axis0 ::
  "nat \<Rightarrow> real list list \<Rightarrow> real list list \<Rightarrow> error + real list" where
  "np_average_axis0 n a w =
     (let scl = map (\<lambda>j. sum_list (map (\<lambda>row. row ! j) w)) [0..<n]
      in if list_ex (\<lambda>s. s = 0) scl then Inl ZeroDivisionError
         else Inr (map (\<lambda>j. sum_list (map2 (\<lambda>ra rw. ra ! j * rw ! j) a w) / scl ! j)
                     [0..<n]))"

text \<open>
  The branch \<open>thickness != 0\<close> after \<open>xs, ys = mid.linspace(n=n_points)\<close>: the normal
  segments, the swap correction, \<open>n_line_pts = thickness\<close> samples along every
  segment, and the Gaussian weighted average when \<open>flatten\<close> is set.
\<close>

definition measure_band ::
  "library \<Rightarrow> image \<Rightarrow> polynomial \<Rightarrow> number \<Rightarrow> real \<Rightarrow> bool \<Rightarrow>
     real list \<Rightarrow> real list \<Rightarrow> error + ndarray" where
  "measure_band L fl mid thickness norm_scale flatten xs ys =
     (let s = swap_endpoints (normal_segments mid thickness xs ys);
          n_line_pts = thickness
      in case np_linspace_rows L (xs0 s) (xs1 s) n_line_pts of
           Inl e \<Rightarrow> Inl e
         | Inr all_xs \<Rightarrow>
        (case np_linspace_rows L (ys0 s) (ys1 s) n_line_pts of
           Inl e \<Rightarrow> Inl e
         | Inr all_ys \<Rightarrow>
        (let straightened = map2 (map2 (map_coordinate L 3 fl)) all_xs all_ys
         in if flatten
            then (case sample_count L n_line_pts of
                    Inl e \<Rightarrow> Inl e
                  | Inr k \<Rightarrow>
                      (let w = map (\<lambda>x. replicate (length xs) (norm_pdf L x norm_scale))
                                 (linspace_pts (- 1) 1 k)
                       in case np_average_axis0 (length xs) straightened w of
                            Inl e \<Rightarrow> Inl e
                          | Inr profile \<Rightarrow> Inr (Arr1 profile)))
            else Inr (Arr2 (length straightened) (length xs) straightened))))"

text \<open>The \<open>try\<close> block of \<open>measure_under_midline\<close>.\<close>

definition sampling_body ::
  "library \<Rightarrow> image \<Rightarrow> polynomial option \<Rightarrow> int \<Rightarrow> number \<Rightarrow> real \<Rightarrow> bool \<Rightarrow>
     error + ndarray" where
  "sampling_body L fl mid n_points thickness norm_scale flatten =
     (if number_value thickness = 0
      then (case poly_linspace mid n_points of
              Inl e \<Rightarrow> Inl e
            | Inr (xs, ys) \<Rightarrow> Inr (Arr1 (map2 (map_coordinate L 1 fl) xs ys)))
      else (case poly_linspace mid n_points of
              Inl e \<Rightarrow> Inl e
            | Inr (xs, ys) \<Rightarrow>
                (case mid of
                   None \<Rightarrow> Inl AttributeError
                 | Some m \<Rightarrow> measure_band L fl m thickness norm_scale flatten xs ys)))"

text \<open>\<open>np.zeros((1, n_points))\<close>: a negative dimension raises \<open>ValueError\<close>.\<close>

definition np_zeros_row :: "int \<Rightarrow> error + ndarray" where
  "np_zeros_row n_points =
     (if n_points < 0 then Inl ValueError
      else Inr (Arr2 1 (nat n_points) [replicate (nat n_points) 0]))"

text \<open>
  \<open>measure_under_midline\<close>: the bare \<open>except:\<close> turns every exception of the
  \<open>try\<close> block into \<open>np.zeros((1, n_points))\<close>.  The parameter \<open>order\<close> is accepted
  and not used, as in the source.
\<close>

definition measure_under_midline ::
  "library \<Rightarrow> image \<Rightarrow> polynomial option \<Rightarrow> int \<Rightarrow> number \<Rightarrow> nat \<Rightarrow> real \<Rightarrow> bool \<Rightarrow>
     error + ndarray" where
  "measure_under_midline L fl mid n_points thickness order norm_scale flatten =
     (case sampling_body L fl mid n_points thickness norm_scale flatten of
        Inr zs \<Rightarrow> Inr zs
      | Inl e \<Rightarrow> np_zeros_row n_points)"

text \<open>
  A stand-in for the library, used only to close the example terms below; the
  general theorems hold for every library.
\<close>

definition stand_in_library :: library where
  "stand_in_library =
     \<lparr>map_coordinate = (\<lambda>order img x y. 0), norm_pdf = (\<lambda>x scale. 1),
      float_index = (\<lambda>r. Inl TypeError), lstsq = (\<lambda>xs ys deg. replicate (Suc deg) 0),
      orientation = (\<lambda>cs. 0), rotate_image = (\<lambda>img t a. img), rotate_mask = (\<lambda>img t a. img)\<rparr>"

definition unit_line :: polynomial where
  "unit_line = \<lparr>coef = [0, 1], domain = (0, 4), window = (- 1, 1)\<rparr>"

section \<open>Batch sampling\<close>

text \<open>
  \<open>midlines.loc[dict(wavelength=dst)] = midlines.sel(wavelength=src)\<close>: an assignment
  into the array itself.  Either label missing raises \<open>KeyError\<close>.
\<close>

definition assign_wavelength :: "'a stack \<Rightarrow> string \<Rightarrow> string \<Rightarrow> error + 'a stack" where
  "assign_wavelength s dst src =
     (if src \<in> set (wavelengths s)
      then (if dst \<in> set (wavelengths s)
            then Inr (s\<lparr>frames :=
                        (\<lambda>k. case k of (a, w, p) \<Rightarrow>
                                if w = dst then frames s (a, src, p) else frames s k)\<rparr>)
            else Inl KeyError)
      else Inl KeyError)"

fun collect :: "('k \<Rightarrow> error + 'v) \<Rightarrow> 'k list \<Rightarrow> error + ('k \<times> 'v) list" where
  "collect f [] = Inr []"
| "collect f (k # ks) =
     (case f k of
        Inl e \<Rightarrow> Inl e
      | Inr v \<Rightarrow> (case collect f ks of Inl e \<Rightarrow> Inl e | Inr kvs \<Rightarrow> Inr ((k, v) # kvs)))"

text \<open>
  \<open>xr.apply_ufunc(measure_under_midline, fl_stack, midlines, ..., vectorize=True,
  kwargs={"n_points": n_points, "thickness": thickness, "order": order})\<close>: every frame
  is sampled under the midline stored at its own index; \<open>norm_scale\<close> and \<open>flatten\<close>
  keep their defaults \<open>1\<close> and \<open>True\<close>.
\<close>

definition measure_frame ::
  "library \<Rightarrow> image stack \<Rightarrow> polynomial option stack \<Rightarrow> int \<Rightarrow> number \<Rightarrow> nat \<Rightarrow>
     nat \<times> string \<times> nat \<Rightarrow> error + ndarray" where
  "measure_frame L fl_stack midlines n_points thickness order k =
     (case frame_at fl_stack k of
        Inl e \<Rightarrow> Inl e
      | Inr fl \<Rightarrow>
          (case frame_at midlines k of
             Inl e \<Rightarrow> Inl e
           | Inr mid \<Rightarrow> measure_under_midline L fl mid n_points thickness order 1 True))"

definition apply_ufunc_measure ::
  "library \<Rightarrow> image stack \<Rightarrow> polynomial option stack \<Rightarrow> int \<Rightarrow> number \<Rightarrow> nat \<Rightarrow>
     error + ndarray stack" where
  "apply_ufunc_measure L fl_stack midlines n_points thickness order =
     (case collect (measure_frame L fl_stack midlines n_points thickness order)
             (loop_indices fl_stack) of
        Inl e \<Rightarrow> Inl e
      | Inr kvs \<Rightarrow>
          Inr \<lparr>animals = animals fl_stack, wavelengths = wavelengths fl_stack,
               pairs = pairs fl_stack, frames = map_of kvs\<rparr>)"

text \<open>
  \<open>measure_under_midlines\<close>.  The result is the pair of what the call returns (or
  raises) and the array the caller's \<open>midlines\<close> refers to once the call is over.
  The parameter \<open>flatten\<close> is accepted and not passed on, as in the source.
\<close>

definition measure_under_midlines ::
  "library \<Rightarrow> image stack \<Rightarrow> polynomial option stack \<Rightarrow> int \<Rightarrow> bool \<Rightarrow> nat \<Rightarrow> number \<Rightarrow>
     bool \<Rightarrow> (error + ndarray stack) \<times> polynomial option stack" where
  "measure_under_midlines L fl_stack midlines n_points frame_specific order thickness flatten =
     (case (if frame_specific then Inr midlines
            else assign_wavelength midlines ''470'' ''410'') of
        Inl e \<Rightarrow> (Inl e, midlines)
      | Inr midlines' \<Rightarrow>
          (apply_ufunc_measure L fl_stack midlines' n_points thickness order, midlines'))"

section \<open>Profile normalisation\<close>

text \<open>Python's \<open>int(x)\<close> on a float truncates towards zero.\<close>

definition py_int :: "real \<Rightarrow> int" where
  "py_int r = (if 0 \<le> r then \<lfloor>r\<rfloor> else \<lceil>r\<rceil>)"

text \<open>
  The slice \<open>xs[start:stop]\<close>: a negative bound counts from the end, and both bounds
  are clamped to the list.
\<close>

definition py_slice :: "'a list \<Rightarrow> int \<Rightarrow> int \<Rightarrow> 'a list" where
  "py_slice xs start stop =
     (let n = int (length xs);
          a = (if start < 0 then max 0 (n + start) else min n start);
          b = (if stop < 0 then max 0 (n + stop) else min n stop)
      in take (nat (b - a)) (drop (nat a) xs))"

text \<open>
  \<open>idx_to_clip = int(profiles.shape[-1] * percent_to_clip / 100)\<close> and the window
  \<open>profiles[:, idx_to_clip:-idx_to_clip]\<close> of one profile, whose length is
  \<open>profiles.shape[-1]\<close>.
\<close>

definition idx_to_clip :: "nat \<Rightarrow> real \<Rightarrow> int" where
  "idx_to_clip ncols percent_to_clip = py_int (real ncols * percent_to_clip / 100)"

definition clip_window :: "real list \<Rightarrow> real \<Rightarrow> real list" where
  "clip_window prof percent_to_clip =
     py_slice prof (idx_to_clip (length prof) percent_to_clip)
       (- idx_to_clip (length prof) percent_to_clip)"

text \<open>
  The normalisation of one frame by the window of its profile: subtract the window's
  mean, then rescale by the minimum and maximum of the centred window.  \<open>np.min\<close>
  over an empty window raises \<open>ValueError\<close>.  (Where numpy divides by zero and
  yields an infinity or a NaN, the model's value is not meaningful.)
\<close>

definition normalize_frame :: "image \<Rightarrow> real list \<Rightarrow> error + image" where
  "normalize_frame img prof =
     (if prof = [] then Inl ValueError
      else (let prof_mean = sum_list prof / real (length prof);
                centred = map (\<lambda>v. v - prof_mean) prof;
                normed = map (map (\<lambda>v. v - prof_mean)) img;
                prof_min = Min (set centred);
                prof_max = Max (set centred)
            in Inr (map (map (\<lambda>v. (v - prof_min) / (prof_max - prof_min))) normed)))"

text \<open>
  \<open>normalize_images_single_wvl\<close> on a stack of frames (three-dimensional by its
  type) and an array of profiles.  A one-dimensional \<open>profiles\<close> fails the check of
  \<open>profiles.ndim\<close>.  The per-frame statistics are combined with the frames along the
  frame axis, as labelled arrays broadcast; frame counts that differ raise.
\<close>

definition normalize_images_single_wvl ::
  "image list \<Rightarrow> ndarray \<Rightarrow> real \<Rightarrow> error + image list" where
  "normalize_images_single_wvl fl_imgs profiles percent_to_clip =
     (case profiles of
        Arr1 zs \<Rightarrow> Inl ValueError
      | Arr2 r c rows \<Rightarrow>
          (if length fl_imgs = r
           then (case collect
                        (\<lambda>k. normalize_frame (fst k) (clip_window (snd k) percent_to_clip))
                        (zip fl_imgs rows) of
                   Inl e \<Rightarrow> Inl e
                 | Inr kvs \<Rightarrow> Inr (map snd kvs))
           else Inl ValueError))"

section \<open>Segmentation\<close>

text \<open>
  A single frame with its scalar \<open>wavelength\<close> coordinate, as \<open>segment_pharynx\<close>
  receives it.
\<close>

record fl_image =
  wavelength :: string
  pixels :: image

definition lower_char :: "char \<Rightarrow> char" where
  "lower_char c =
     (let n = (of_char c :: nat) in if 65 \<le> n \<and> n \<le> 90 then char_of (n + 32) else c)"

definition py_lower :: "string \<Rightarrow> string" where
  "py_lower s = map lower_char s"

text \<open>The substring test \<open>sub in s\<close>.\<close>

fun py_in :: "string \<Rightarrow> string \<Rightarrow> bool" where
  "py_in sub [] = (sub = [])"
| "py_in sub (c # cs) = (take (length sub) (c # cs) = sub \<or> py_in sub cs)"

text \<open>\<open>fl_img.max()\<close>: the maximum of an array with no element raises \<open>ValueError\<close>.\<close>

definition img_max :: "image \<Rightarrow> error + real" where
  "img_max img =
     (case concat img of [] \<Rightarrow> Inl ValueError | v # vs \<Rightarrow> Inr (Max (set (v # vs))))"

definition greater_than :: "image \<Rightarrow> real \<Rightarrow> mask" where
  "greater_than img t = map (map (\<lambda>v. t < v)) img"

definition zeros_like :: "image \<Rightarrow> mask" where
  "zeros_like img = map (map (\<lambda>v. False)) img"

definition min_area :: nat where "min_area = 450 - 100"

definition max_area :: nat where "max_area = 450 + 100"

definition max_iter :: nat where "max_iter = 300"

text \<open>
  The update of the threshold fraction in the loop body:
  \<^verbatim>\<open>if area > max_area: p = p + 0.01\<close> and then
  \<^verbatim>\<open>if area < min_area: p = p - 0.01\<close>.
\<close>

definition next_p :: "real \<Rightarrow> nat \<Rightarrow> real" where
  "next_p p area =
     (let p1 = (if area > max_area then p + 0.01 else p)
      in if area < min_area then p1 - 0.01 else p1)"

text \<open>
  The \<open>while\<close> loop of \<open>segment_pharynx\<close>, from the test of its condition on.  The
  image is not modified, so \<open>mx\<close> stands for every \<open>fl_img.max()\<close>.  The result is
  the mask returned together with the final value of the counter \<open>i\<close>, or the
  exception that \<open>get_area_of_largest_object\<close> lets through.
\<close>

function threshold_loop ::
  "image \<Rightarrow> real \<Rightarrow> real \<Rightarrow> mask \<Rightarrow> nat \<Rightarrow> nat \<Rightarrow> error + mask \<times> nat" where
  "threshold_loop fl mx p S area i =
     (if min_area > area \<or> area > max_area
      then (if i \<ge> max_iter then Inr (S, i)
            else (case get_area_of_largest_object S of
                    Inl e \<Rightarrow> Inl e
                  | Inr area' \<Rightarrow>
                      (let p' = next_p p area';
                           i' = i + 1;
                           S' = greater_than fl (mx * p')
                       in if p' < 0 then Inr (greater_than fl (mx * 0.15), i')
                          else if p' > 0.9 then Inr (greater_than fl (mx * 0.15), i')
                          else threshold_loop fl mx p' S' area' i')))
      else Inr (S, i))"
  by pat_completeness auto
termination
  by (relation "measure (\<lambda>(fl, mx, p, S, area, i). max_iter - i)") auto

declare threshold_loop.simps [simp del]

text \<open>
  \<open>segment_pharynx\<close>.  On a transmitted-light frame the source returns the copy set
  to zero, here the mask with no foreground.
\<close>

definition segment_pharynx :: "fl_image \<Rightarrow> error + mask \<times> nat" where
  "segment_pharynx fl_img =
     (if py_in ''tl'' (py_lower (wavelength fl_img))
      then Inr (zeros_like (pixels fl_img), 0)
      else (case img_max (pixels fl_img) of
              Inl e \<Rightarrow> Inl e
            | Inr mx \<Rightarrow>
                (let p = 0.15;
                     S = greater_than (pixels fl_img) (mx * p)
                 in case get_area_of_largest_object S of
                      Inl e \<Rightarrow> Inl e
                    | Inr area \<Rightarrow> threshold_loop (pixels fl_img) mx p S area 0)))"

section \<open>Example inputs\<close>

text \<open>A mask of three rows and eight columns with one object in row 1, columns 4 to 6.\<close>

definition bar_mask :: mask where
  "bar_mask = [[False, False, False, False, False, False, False, False],
               [False, False, False, False, True, True, True, False],
               [False, False, False, False, False, False, False, False]]"

text \<open>
  A stack of one animal, one pair and three fluorescence channels, with three
  different midlines.
\<close>

definition mid_410 :: polynomial where
  "mid_410 = \<lparr>coef = [0, 1], domain = (0, 4), window = (- 1, 1)\<rparr>"

definition mid_470 :: polynomial where
  "mid_470 = \<lparr>coef = [0, 1], domain = (0, 5), window = (- 1, 1)\<rparr>"

definition mid_510 :: polynomial where
  "mid_510 = \<lparr>coef = [0, 1], domain = (0, 6), window = (- 1, 1)\<rparr>"

definition three_channel_midlines :: "polynomial option stack" where
  "three_channel_midlines =
     \<lparr>animals = 1, wavelengths = [''410'', ''470'', ''510''], pairs = [0],
      frames = [(0, ''410'', 0) \<mapsto> Some mid_410, (0, ''470'', 0) \<mapsto> Some mid_470,
                (0, ''510'', 0) \<mapsto> Some mid_510]\<rparr>"

definition three_channel_images :: "image stack" where
  "three_channel_images =
     \<lparr>animals = 1, wavelengths = [''410'', ''470'', ''510''], pairs = [0],
      frames = [(0, ''410'', 0) \<mapsto> [[1]], (0, ''470'', 0) \<mapsto> [[2]],
                (0, ''510'', 0) \<mapsto> [[3]]]\<rparr>"

text \<open>A stack of a single frame, and a mask stack whose only mask has no foreground.\<close>

definition one_frame_images :: "image stack" where
  "one_frame_images =
     \<lparr>animals = 1, wavelengths = [''410''], pairs = [0], frames = [(0, ''410'', 0) \<mapsto> [[1]]]\<rparr>"

definition one_frame_empty_mask :: "mask stack" where
  "one_frame_empty_mask =
     \<lparr>animals = 1, wavelengths = [''410''], pairs = [0], frames = [(0, ''410'', 0) \<mapsto> [[False]]]\<rparr>"

section \<open>Properties of the swap correction\<close>

lemma swap_step_lengths:
  "length (xs0 (swap_step i s)) = length (xs0 s) \<and>
   length (xs1 (swap_step i s)) = length (xs1 s) \<and>
   length (ys0 (swap_step i s)) = length (ys0 s) \<and>
   length (ys1 (swap_step i s)) = length (ys1 s)"
  by (simp add: swap_step_def)

lemma fold_swap_lengths:
  "length (xs0 (fold swap_step [0..<k] s)) = length (xs0 s) \<and>
   length (xs1 (fold swap_step [0..<k] s)) = length (xs1 s) \<and>
   length (ys0 (fold swap_step [0..<k] s)) = length (ys0 s) \<and>
   length (ys1 (fold swap_step [0..<k] s)) = length (ys1 s)"
  by (induction k) (simp_all add: swap_step_lengths)

lemma swap_step_at_index:
  assumes "i < zip_length s"
  shows "at_index (swap_step i s) j = (if j = i then swapped_at s i else at_index s j)"
  using assms by (simp add: swap_step_def at_index_def swapped_at_def zip_length_def)

lemma zip_length_fold:
  "zip_length (fold swap_step [0..<k] s) = zip_length s"
  by (simp add: zip_length_def fold_swap_lengths)

lemma fold_swap_at_index:
  assumes "k \<le> zip_length s"
  shows "at_index (fold swap_step [0..<k] s) j =
           (if j < k then swapped_at s j else at_index s j)"
  using assms
proof (induction k arbitrary: j)
  case 0
  then show ?case by simp
next
  case (Suc k)
  let ?t = "fold swap_step [0..<k] s"
  have k: "k < zip_length ?t" using Suc.prems by (simp add: zip_length_fold)
  have ih: "at_index ?t j = (if j < k then swapped_at s j else at_index s j)" for j
    using Suc by simp
  have "swapped_at ?t k = swapped_at s k"
    using ih [of k] by (simp add: at_index_def swapped_at_def)
  then show ?case
    using swap_step_at_index [OF k, of j] ih [of j] by (auto simp: less_Suc_eq)
qed

text \<open>
  C6.  After the swap correction, every one of the segments has a first end point
  whose vertical coordinate is at least that of its second end point; the segments
  whose first end point was strictly lower have had their \<open>x\<close> and \<open>y\<close> end points
  exchanged, and every other segment is as it was.  The four arrays have one entry
  per midline point, as \<open>normal_segments\<close> builds them.
\<close>

theorem swap_endpoints_ordered:
  assumes "length (xs0 s) = n" and "length (xs1 s) = n"
    and "length (ys0 s) = n" and "length (ys1 s) = n" and "i < n"
  shows "ys1 (swap_endpoints s) ! i \<le> ys0 (swap_endpoints s) ! i \<and>
         at_index (swap_endpoints s) i =
           (if ys0 s ! i < ys1 s ! i
            then (xs1 s ! i, xs0 s ! i, ys1 s ! i, ys0 s ! i)
            else (xs0 s ! i, xs1 s ! i, ys0 s ! i, ys1 s ! i))"
proof -
  have n: "zip_length s = n" using assms by (simp add: zip_length_def)
  have "at_index (swap_endpoints s) i = swapped_at s i"
    unfolding swap_endpoints_def using fold_swap_at_index [of "zip_length s" s i] assms n
    by simp
  then show ?thesis
    by (auto simp: at_index_def swapped_at_def split: if_splits)
qed

theorem swap_endpoints_ordered_witness:
  "ys1 (swap_endpoints \<lparr>xs0 = [1, 2], xs1 = [3, 4], ys0 = [5, 6], ys1 = [7, 0]\<rparr>) ! 0
     \<le> ys0 (swap_endpoints \<lparr>xs0 = [1, 2], xs1 = [3, 4], ys0 = [5, 6], ys1 = [7, 0]\<rparr>) ! 0 \<and>
   at_index (swap_endpoints \<lparr>xs0 = [1, 2], xs1 = [3, 4], ys0 = [5, 6], ys1 = [7, 0]\<rparr>) 0
     = (3, 1, 7, 5)"
  using swap_endpoints_ordered
    [of "\<lparr>xs0 = [1, 2], xs1 = [3, 4], ys0 = [5, 6], ys1 = [7, 0]\<rparr>" 2 0]
  by simp

section \<open>Properties of the sampler\<close>

lemma poly_linspace_Some:
  assumes "0 \<le> n"
  shows "\<exists>xs ys. poly_linspace (Some m) n = Inr (xs, ys) \<and> length xs = nat n \<and> length ys = nat n"
  using assms by (simp add: poly_linspace_def np_linspace_def linspace_pts_def)

lemma normal_segments_lengths:
  assumes "length xs = n" and "length ys = n"
  shows "length (xs0 (normal_segments m th xs ys)) = n \<and>
         length (xs1 (normal_segments m th xs ys)) = n \<and>
         length (ys0 (normal_segments m th xs ys)) = n \<and>
         length (ys1 (normal_segments m th xs ys)) = n"
  using assms by (simp add: normal_segments_def Let_def)

lemma swap_endpoints_lengths:
  "length (xs0 (swap_endpoints s)) = length (xs0 s) \<and>
   length (xs1 (swap_endpoints s)) = length (xs1 s) \<and>
   length (ys0 (swap_endpoints s)) = length (ys0 s) \<and>
   length (ys1 (swap_endpoints s)) = length (ys1 s)"
  by (simp add: swap_endpoints_def fold_swap_lengths)

lemma np_linspace_rows_PyInt:
  assumes "0 \<le> k"
  shows "\<exists>rows. np_linspace_rows L starts stops (PyInt k) = Inr rows \<and> length rows = nat k \<and>
           list_all (\<lambda>row. length row = min (length starts) (length stops)) rows"
  using assms by (simp add: np_linspace_rows_def sample_count_def list_all_iff)

lemma measure_band_unflattened:
  assumes "0 < k" and "length xs = n" and "length ys = n"
  shows "\<exists>rows. measure_band L fl m (PyInt k) ns False xs ys = Inr (Arr2 (nat k) n rows) \<and>
           length rows = nat k \<and> list_all (\<lambda>row. length row = n) rows"
proof -
  let ?s = "swap_endpoints (normal_segments m (PyInt k) xs ys)"
  have len: "length (xs0 ?s) = n" "length (xs1 ?s) = n" "length (ys0 ?s) = n" "length (ys1 ?s) = n"
    using normal_segments_lengths [OF assms(2,3), of m "PyInt k"] swap_endpoints_lengths [of "normal_segments m (PyInt k) xs ys"]
    by simp_all
  obtain ax where ax: "np_linspace_rows L (xs0 ?s) (xs1 ?s) (PyInt k) = Inr ax" "length ax = nat k"
      "list_all (\<lambda>row. length row = n) ax"
    using np_linspace_rows_PyInt [of k L "xs0 ?s" "xs1 ?s"] assms(1) len by auto
  obtain ay where ay: "np_linspace_rows L (ys0 ?s) (ys1 ?s) (PyInt k) = Inr ay" "length ay = nat k"
      "list_all (\<lambda>row. length row = n) ay"
    using np_linspace_rows_PyInt [of k L "ys0 ?s" "ys1 ?s"] assms(1) len by auto
  let ?st = "map2 (map2 (map_coordinate L 3 fl)) ax ay"
  have "length ?st = nat k" using ax ay by simp
  moreover have "list_all (\<lambda>row. length row = n) ?st"
  proof -
    have "length (map2 (map_coordinate L 3 fl) a b) = n" if "(a, b) \<in> set (zip ax ay)" for a b
      using that ax(3) ay(3) set_zip_leftD [OF that] set_zip_rightD [OF that]
      by (simp add: list_all_iff)
    then show ?thesis by (auto simp: list_all_iff)
  qed
  moreover have "measure_band L fl m (PyInt k) ns False xs ys = Inr (Arr2 (length ?st) n ?st)"
    using ax(1) ay(1) assms(2) by (simp add: measure_band_def Let_def)
  ultimately show ?thesis by simp
qed

lemma np_average_axis0_length:
  "np_average_axis0 n a w = Inr p \<Longrightarrow> length p = n"
  by (auto simp: np_average_axis0_def Let_def split: if_splits)

lemma measure_band_flattened:
  assumes "measure_band L fl m th ns True xs ys = Inr r"
  shows "\<exists>zs. r = Arr1 zs \<and> length zs = length xs"
  using assms
  by (auto simp: measure_band_def Let_def split: sum.splits dest: np_average_axis0_length)

lemma sampling_body_thin:
  assumes "0 \<le> n_points" and "number_value thickness = 0"
  shows "\<exists>zs. sampling_body L fl (Some m) n_points thickness ns flt = Inr (Arr1 zs) \<and>
           length zs = nat n_points"
proof -
  obtain xs ys where "poly_linspace (Some m) n_points = Inr (xs, ys)"
      "length xs = nat n_points" "length ys = nat n_points"
    using poly_linspace_Some [OF assms(1), of m] by auto
  then show ?thesis using assms(2) by (simp add: sampling_body_def)
qed

lemma sampling_body_flattened:
  assumes "0 \<le> n_points" and "number_value thickness \<noteq> 0"
    and "sampling_body L fl (Some m) n_points thickness ns True = Inr r"
  shows "\<exists>zs. r = Arr1 zs \<and> length zs = nat n_points"
proof -
  obtain xs ys where l: "poly_linspace (Some m) n_points = Inr (xs, ys)"
      "length xs = nat n_points" "length ys = nat n_points"
    using poly_linspace_Some [OF assms(1), of m] by auto
  then have "measure_band L fl m thickness ns True xs ys = Inr r"
    using assms(2,3) by (simp add: sampling_body_def)
  then show ?thesis using measure_band_flattened l(2) by fastforce
qed

lemma sampling_body_band:
  assumes "0 \<le> n_points" and "0 < k"
  shows "\<exists>rows. sampling_body L fl (Some m) n_points (PyInt k) ns False
                  = Inr (Arr2 (nat k) (nat n_points) rows) \<and>
           length rows = nat k \<and> list_all (\<lambda>row. length row = nat n_points) rows"
proof -
  obtain xs ys where l: "poly_linspace (Some m) n_points = Inr (xs, ys)"
      "length xs = nat n_points" "length ys = nat n_points"
    using poly_linspace_Some [OF assms(1), of m] by auto
  then show ?thesis
    using measure_band_unflattened [OF assms(2) l(2,3), of L fl m ns] assms(2)
    by (simp add: sampling_body_def)
qed

text \<open>
  C2 (as amended).  For a sample count that is not negative the sampler never
  raises; with no midline, and whenever its \<open>try\<close> block raises, it returns the
  all-zero array of shape \<open>(1, n_points)\<close>: one row of \<open>n_points\<close> zeros, a
  two-dimensional array.
\<close>

theorem measure_under_midline_fallback:
  assumes "0 \<le> n_points"
  shows "(\<exists>r. measure_under_midline L fl mid n_points thickness ord ns flt = Inr r) \<and>
         measure_under_midline L fl None n_points thickness ord ns flt
           = Inr (Arr2 1 (nat n_points) [replicate (nat n_points) 0]) \<and>
         (sampling_body L fl mid n_points thickness ns flt = Inl e \<longrightarrow>
            measure_under_midline L fl mid n_points thickness ord ns flt
              = Inr (Arr2 1 (nat n_points) [replicate (nat n_points) 0]))"
  using assms
  by (auto simp: measure_under_midline_def np_zeros_row_def sampling_body_def
      poly_linspace_def split: sum.splits)

theorem measure_under_midline_fallback_witness:
  "(0::int) \<le> 3 \<and>
   sampling_body stand_in_library [[1]] None 3 (PyInt 2) 1 True = Inl AttributeError \<and>
   (\<exists>r. measure_under_midline stand_in_library [[1]] None 3 (PyInt 2) 1 1 True = Inr r) \<and>
   measure_under_midline stand_in_library [[1]] None 3 (PyInt 2) 1 1 True
     = Inr (Arr2 1 3 [replicate 3 0])"
  using measure_under_midline_fallback
    [of 3 stand_in_library "[[1]]" None "PyInt 2" 1 1 True AttributeError]
  by (simp add: sampling_body_def poly_linspace_def)

text \<open>
  C2 as stated fails: with no midline and \<open>n_points = 3\<close> the result has shape
  \<open>(1, 3)\<close>, which is not the shape \<open>(3,)\<close> of a successful zero-thickness profile.
\<close>

theorem measure_under_midline_fallback_not_1d:
  "measure_under_midline stand_in_library [[1]] None 3 (PyInt 0) 1 1 True
     = Inr (Arr2 1 3 [[0, 0, 0]]) \<and>
   shape (Arr2 1 3 [[0, 0, 0]]) \<noteq> [3] \<and>
   (\<exists>zs. measure_under_midline stand_in_library [[1]] (Some unit_line) 3 (PyInt 0) 1 1 True
           = Inr (Arr1 zs) \<and> shape (Arr1 zs) = [3])"
proof -
  have "\<exists>zs. sampling_body stand_in_library [[1]] (Some unit_line) 3 (PyInt 0) 1 True
               = Inr (Arr1 zs) \<and> length zs = nat 3"
    by (rule sampling_body_thin) simp_all
  then show ?thesis
    by (auto simp: measure_under_midline_def np_zeros_row_def sampling_body_def
        poly_linspace_def numeral_3_eq_3)
qed

lemma np_average_axis0_tiled:
  assumes "sum_list (map f pts) \<noteq> 0"
  shows "\<exists>p. np_average_axis0 n a (map (\<lambda>x. replicate n (f x)) pts) = Inr p \<and> length p = n"
proof -
  have "sum_list (map (\<lambda>row. row ! j) (map (\<lambda>x. replicate n (f x)) pts)) = sum_list (map f pts)"
    if "j < n" for j
    using that by (simp add: comp_def)
  then have "\<not> list_ex (\<lambda>s. s = 0)
                 (map (\<lambda>j. sum_list (map (\<lambda>row. row ! j) (map (\<lambda>x. replicate n (f x)) pts)))
                    [0..<n])"
    using assms by (auto simp: list_ex_iff)
  then show ?thesis by (simp add: np_average_axis0_def Let_def)
qed

lemma measure_band_flattened_integer:
  assumes "0 < k" and "length xs = n" and "length ys = n"
    and "sum_list (map (\<lambda>x. norm_pdf L x ns) (linspace_pts (- 1) 1 (nat k))) \<noteq> 0"
  shows "\<exists>zs. measure_band L fl m (PyInt k) ns True xs ys = Inr (Arr1 zs) \<and> length zs = n"
proof -
  let ?s = "swap_endpoints (normal_segments m (PyInt k) xs ys)"
  obtain ax where ax: "np_linspace_rows L (xs0 ?s) (xs1 ?s) (PyInt k) = Inr ax"
    using np_linspace_rows_PyInt [of k L "xs0 ?s" "xs1 ?s"] assms(1) by auto
  obtain ay where ay: "np_linspace_rows L (ys0 ?s) (ys1 ?s) (PyInt k) = Inr ay"
    using np_linspace_rows_PyInt [of k L "ys0 ?s" "ys1 ?s"] assms(1) by auto
  have sc: "sample_count L (PyInt k) = Inr (nat k)"
    using assms(1) by (simp add: sample_count_def)
  obtain p where p: "np_average_axis0 n (map2 (map2 (map_coordinate L 3 fl)) ax ay)
                       (map (\<lambda>x. replicate n (norm_pdf L x ns)) (linspace_pts (- 1) 1 (nat k)))
                     = Inr p" "length p = n"
    using np_average_axis0_tiled [OF assms(4), of n] by blast
  show ?thesis
    using ax ay sc p assms(2) by (simp add: measure_band_def Let_def)
qed

lemma sampling_body_flattened_integer:
  assumes "0 \<le> n_points" and "0 < k"
    and "sum_list (map (\<lambda>x. norm_pdf L x ns) (linspace_pts (- 1) 1 (nat k))) \<noteq> 0"
  shows "\<exists>zs. sampling_body L fl (Some m) n_points (PyInt k) ns True = Inr (Arr1 zs) \<and>
           length zs = nat n_points"
proof -
  obtain xs ys where l: "poly_linspace (Some m) n_points = Inr (xs, ys)"
      "length xs = nat n_points" "length ys = nat n_points"
    using poly_linspace_Some [OF assms(1), of m] by auto
  then show ?thesis
    using measure_band_flattened_integer [OF assms(2) l(2,3) assms(3), of fl m] assms(2)
    by (simp add: sampling_body_def)
qed

text \<open>
  What holds of a thickness that is an integer \<open>k > 0\<close>, for a midline that is not
  null and a sample count that is not negative: without \<open>flatten\<close> the result is
  the band of shape \<open>(k, n_points)\<close>, and with \<open>flatten\<close>, when the Gaussian
  weights do not sum to zero, the one-dimensional profile of \<open>n_points\<close> entries.
  With thickness zero the result is one-dimensional with \<open>n_points\<close> entries.
\<close>

lemma measure_under_midline_integer_thickness:
  assumes "0 \<le> n_points" and "0 < k"
  shows "(\<exists>rows. measure_under_midline L fl (Some m) n_points (PyInt k) ord ns False
                    = Inr (Arr2 (nat k) (nat n_points) rows) \<and>
                  length rows = nat k \<and>
                  list_all (\<lambda>row. length row = nat n_points) rows) \<and>
         (sum_list (map (\<lambda>x. norm_pdf L x ns) (linspace_pts (- 1) 1 (nat k))) \<noteq> 0 \<longrightarrow>
            (\<exists>zs. measure_under_midline L fl (Some m) n_points (PyInt k) ord ns True
                     = Inr (Arr1 zs) \<and> length zs = nat n_points))"
  using sampling_body_band [OF assms, of L fl m ns]
    sampling_body_flattened_integer [OF assms, of L ns fl m]
  by (auto simp: measure_under_midline_def)

lemma measure_under_midline_zero_thickness:
  assumes "0 \<le> n_points" and "number_value thickness = 0"
  shows "\<exists>zs. measure_under_midline L fl (Some m) n_points thickness ord ns flt = Inr (Arr1 zs) \<and>
           length zs = nat n_points"
  using sampling_body_thin [OF assms, of L fl m ns flt]
  by (auto simp: measure_under_midline_def)

text \<open>
  C4, at the thickness \<open>3.0\<close>, a \<open>float\<close> as the parameter is declared, with
  \<open>n_points = 2\<close> and \<open>flatten = False\<close>: \<open>n_line_pts = thickness\<close> reaches
  \<open>np.linspace\<close> as it is, \<open>np.linspace\<close> refuses a sample count that is a
  \<open>float\<close>, and the bare \<open>except\<close> returns the zeros of shape \<open>(1, 2)\<close>, not a band
  of shape \<open>(3, 2)\<close>.  The integer \<open>3\<close> does give that band.
\<close>

theorem measure_under_midline_float_thickness:
  "measure_under_midline (L\<lparr>float_index := (\<lambda>r. Inl TypeError)\<rparr>) fl (Some unit_line) 2
     (PyFloat 3) ord ns False = Inr (Arr2 1 2 [[0, 0]]) \<and>
   shape (Arr2 1 2 [[0, 0]]) \<noteq> [3, 2] \<and>
   (\<exists>rows. measure_under_midline (L\<lparr>float_index := (\<lambda>r. Inl TypeError)\<rparr>) fl
              (Some unit_line) 2 (PyInt 3) ord ns False = Inr (Arr2 3 2 rows))"
proof -
  have "measure_under_midline (L\<lparr>float_index := (\<lambda>r. Inl TypeError)\<rparr>) fl (Some unit_line) 2
     (PyFloat 3) ord ns False = Inr (Arr2 1 2 [[0, 0]])"
    by (simp add: measure_under_midline_def np_zeros_row_def sampling_body_def
        poly_linspace_def np_linspace_def measure_band_def np_linspace_rows_def
        sample_count_def Let_def numeral_2_eq_2)
  moreover have "\<exists>rows. measure_under_midline (L\<lparr>float_index := (\<lambda>r. Inl TypeError)\<rparr>) fl
              (Some unit_line) 2 (PyInt 3) ord ns False = Inr (Arr2 3 2 rows)"
    using sampling_body_band [of 2 3 "L\<lparr>float_index := (\<lambda>r. Inl TypeError)\<rparr>" fl unit_line ns]
    by (auto simp: measure_under_midline_def)
  ultimately show ?thesis by simp
qed

section \<open>Properties of midline fitting\<close>

lemma foreground_empty:
  assumes "\<forall>row \<in> set img. \<forall>b \<in> set row. \<not> b"
  shows "foreground img = []"
proof -
  have "\<not> img ! r ! c" if "r < length img" "c < length (img ! r)" for r c
    using assms that by (meson nth_mem)
  then show ?thesis by (auto simp: foreground_def filter_empty_conv)
qed

lemma foreground_no_pixel: "concat img = [] \<Longrightarrow> foreground img = []"
  by (rule foreground_empty) auto

lemma regionprops_first_cases:
  "foreground m = [] \<Longrightarrow> regionprops_first m = Inl ValueError \<or> regionprops_first m = Inl IndexError"
  "foreground m \<noteq> [] \<Longrightarrow> \<exists>cs. regionprops_first m = Inr cs"
  using foreground_no_pixel [of m]
  by (auto simp: regionprops_first_def split: list.splits)

text \<open>
  C8 (as amended).  For every mask with at least one pixel and no foreground pixel,
  hence with no connected component, \<open>calculate_midline\<close> returns \<open>None\<close> and
  raises nothing.
\<close>

theorem calculate_midline_empty_mask:
  assumes "concat rot_seg_img \<noteq> []" and "\<forall>row \<in> set rot_seg_img. \<forall>b \<in> set row. \<not> b"
  shows "calculate_midline L rot_seg_img degree pad = Inr None"
  using foreground_empty [OF assms(2)] assms(1)
  by (simp add: calculate_midline_def regionprops_first_def)

theorem calculate_midline_empty_mask_witness:
  "concat [[False, False], [False, False]] \<noteq> [] \<and>
   calculate_midline stand_in_library [[False, False], [False, False]] 4 10 = Inr None"
  using calculate_midline_empty_mask [of "[[False, False], [False, False]]" stand_in_library 4 10]
  by simp

text \<open>
  C8 as stated fails on a mask with no pixel, which has no foreground component
  either: \<open>regionprops\<close> raises \<open>ValueError\<close>, which \<open>except IndexError\<close> does not
  catch.
\<close>

theorem calculate_midline_no_pixel_raises:
  "calculate_midline stand_in_library [] 4 10 = Inl ValueError \<and>
   calculate_midline stand_in_library [[], []] 4 10 = Inl ValueError"
  by (simp add: calculate_midline_def regionprops_first_def)

lemma foreground_bar_mask: "foreground bar_mask = [(1, 4), (1, 5), (1, 6)]"
  by code_simp

lemma regionprops_first_bar_mask: "regionprops_first bar_mask = Inr [(1, 4), (1, 5), (1, 6)]"
  by code_simp

text \<open>
  C1, at a mask with one object whose bounding box is \<open>(min_row, min_col, max_row,
  max_col) = (1, 4, 2, 7)\<close>: with \<open>pad = 10\<close> the domain of the fitted midline is
  \<open>[1 - 10, 7 + 10]\<close>.  Its lower end is taken from the top row of the box, not from
  its left column \<open>4\<close>.
\<close>

theorem calculate_midline_domain_from_min_row:
  "bbox (foreground bar_mask) = (1, 4, 2, 7) \<and>
   map_sum id (map_option domain) (calculate_midline L bar_mask 4 10)
     = Inr (Some (1 - 10, 7 + 10)) \<and>
   real_of_int (1 - 10) \<noteq> real_of_int (4 - 10)"
  by (simp add: calculate_midline_def regionprops_first_bar_mask foreground_bar_mask bbox_def
      Polynomial_fit_def Let_def split: prod.splits)

section \<open>Properties of pose normalisation\<close>

lemma run_steps_first_error:
  assumes "I s"
    and "\<And>k s. k \<in> set ks \<Longrightarrow> I s \<Longrightarrow> bad k \<Longrightarrow> f k s = Inl err"
    and "\<And>k s. k \<in> set ks \<Longrightarrow> I s \<Longrightarrow> \<not> bad k \<Longrightarrow> \<exists>s'. f k s = Inr s' \<and> I s'"
  shows "if list_ex bad ks then run_steps f ks s = Inl err
         else (\<exists>s'. run_steps f ks s = Inr s' \<and> I s')"
  using assms
proof (induction ks arbitrary: s)
  case Nil
  then show ?case by simp
next
  case (Cons k ks)
  show ?case
  proof (cases "bad k")
    case True
    then show ?thesis using Cons.prems(1) Cons.prems(2) [of k s] by simp
  next
    case False
    then obtain s' where s': "f k s = Inr s'" "I s'"
      using Cons.prems(1) Cons.prems(3) [of k s] by auto
    have "if list_ex bad ks then run_steps f ks s' = Inl err
          else (\<exists>s''. run_steps f ks s' = Inr s'' \<and> I s'')"
      by (rule Cons.IH [OF s'(2)]) (use Cons.prems in auto)
    then show ?thesis using False s'(1) by simp
  qed
qed

lemma set_loop_indices:
  "set (loop_indices s) = {(a, w, p). a < animals s \<and> w \<in> set (wavelengths s) \<and> p \<in> set (pairs s)}"
  by (force simp: loop_indices_def)

lemma rotate_step_cases:
  assumes wf: "well_formed fl_images" "well_formed seg_images"
    and al: "animals seg_images = animals fl_images" "wavelengths seg_images = wavelengths fl_images"
      "pairs seg_images = pairs fl_images"
    and ref: "reference_wavelength \<in> set (wavelengths fl_images)"
    and k: "k \<in> set (loop_indices fl_images)"
    and inv: "dom (frames (snd st)) = dom (frames seg_images)"
  shows "if no_reference_object seg_images reference_wavelength k
         then rotate_step L c fl_images seg_images reference_wavelength k st = Inl ValueError
         else (\<exists>st'. rotate_step L c fl_images seg_images reference_wavelength k st = Inr st' \<and>
                 dom (frames (snd st')) = dom (frames seg_images))"
proof -
  obtain a w p where kk: "k = (a, w, p)" by (cases k)
  have idx: "a < animals fl_images" "w \<in> set (wavelengths fl_images)" "p \<in> set (pairs fl_images)"
    using k kk by (auto simp: set_loop_indices)
  have "(a, reference_wavelength, p) \<in> dom (frames seg_images)"
    using wf(2) idx ref al by (simp add: well_formed_def set_loop_indices)
  then obtain m where m: "frames seg_images (a, reference_wavelength, p) = Some m" by auto
  have "(a, w, p) \<in> dom (frames fl_images)"
    using wf(1) idx by (simp add: well_formed_def set_loop_indices)
  then obtain img where img: "frames fl_images (a, w, p) = Some img" by auto
  have in_seg: "(a, w, p) \<in> dom (frames seg_images)"
    using wf(2) idx al by (simp add: well_formed_def set_loop_indices)
  then have "(a, w, p) \<in> dom (frames (snd st))" using inv by simp
  then obtain sg where sg: "frames (snd st) (a, w, p) = Some sg" by auto
  show ?thesis
  proof (cases "foreground m = []")
    case True
    then show ?thesis using m img sg kk regionprops_first_cases(1) [of m]
      by (auto simp: no_reference_object_def rotate_step_def frame_at_def)
  next
    case False
    then obtain cs where "regionprops_first m = Inr cs"
      using regionprops_first_cases(2) by blast
    then show ?thesis using m img sg kk False in_seg inv
      by (auto simp: no_reference_object_def rotate_step_def frame_at_def
          set_frame_def Let_def split: prod.splits)
  qed
qed

text \<open>
  C5.  On index-aligned stacks that hold the reference wavelength,
  \<open>center_and_rotate_pharynxes\<close> raises the \<open>ValueError\<close> "No binary objects found"
  (the specification's \<open>NoObjectFound\<close>) exactly when the reference mask of some
  animal and pair has no foreground pixel; the exception reaches the caller, and when
  every reference mask has foreground the call returns the two rotated stacks.
\<close>

theorem center_and_rotate_pharynxes_no_object:
  assumes wf: "well_formed fl_images" "well_formed seg_images"
    and al: "animals seg_images = animals fl_images" "wavelengths seg_images = wavelengths fl_images"
      "pairs seg_images = pairs fl_images"
    and ref: "reference_wavelength \<in> set (wavelengths fl_images)"
  shows "(center_and_rotate_pharynxes L y_size x_size fl_images seg_images reference_wavelength
            = Inl ValueError)
         = (\<exists>a p m. a < animals fl_images \<and> p \<in> set (pairs fl_images) \<and>
                frames seg_images (a, reference_wavelength, p) = Some m \<and> foreground m = []) \<and>
         (\<exists>out. center_and_rotate_pharynxes L y_size x_size fl_images seg_images reference_wavelength
            = Inr out)
         = (\<not> (\<exists>a p m. a < animals fl_images \<and> p \<in> set (pairs fl_images) \<and>
                frames seg_images (a, reference_wavelength, p) = Some m \<and> foreground m = []))"
proof -
  let ?bad = "no_reference_object seg_images reference_wavelength"
  let ?f = "rotate_step L (y_size div 2, x_size div 2) fl_images seg_images reference_wavelength"
  let ?I = "\<lambda>st :: image stack \<times> mask stack. dom (frames (snd st)) = dom (frames seg_images)"
  have run: "if list_ex ?bad (loop_indices fl_images)
        then run_steps ?f (loop_indices fl_images) (fl_images, seg_images) = Inl ValueError
        else (\<exists>s'. run_steps ?f (loop_indices fl_images) (fl_images, seg_images) = Inr s' \<and> ?I s')"
  proof (rule run_steps_first_error [where I = ?I])
    show "?I (fl_images, seg_images)" by simp
  next
    fix k s assume "k \<in> set (loop_indices fl_images)" "?I s" "?bad k"
    then show "?f k s = Inl ValueError"
      using rotate_step_cases [OF wf al ref, of k s L "(y_size div 2, x_size div 2)"] by simp
  next
    fix k s assume "k \<in> set (loop_indices fl_images)" "?I s" "\<not> ?bad k"
    then show "\<exists>s'. ?f k s = Inr s' \<and> ?I s'"
      using rotate_step_cases [OF wf al ref, of k s L "(y_size div 2, x_size div 2)"] by simp
  qed
  have ex: "list_ex ?bad (loop_indices fl_images)
        = (\<exists>a p m. a < animals fl_images \<and> p \<in> set (pairs fl_images) \<and>
                frames seg_images (a, reference_wavelength, p) = Some m \<and> foreground m = [])"
  proof
    assume "list_ex ?bad (loop_indices fl_images)"
    then obtain a w p where "a < animals fl_images" "p \<in> set (pairs fl_images)" "?bad (a, w, p)"
      by (auto simp: list_ex_iff set_loop_indices)
    then show "\<exists>a p m. a < animals fl_images \<and> p \<in> set (pairs fl_images) \<and>
                frames seg_images (a, reference_wavelength, p) = Some m \<and> foreground m = []"
      by (cases "frames seg_images (a, reference_wavelength, p)")
        (auto simp: no_reference_object_def)
  next
    assume "\<exists>a p m. a < animals fl_images \<and> p \<in> set (pairs fl_images) \<and>
                frames seg_images (a, reference_wavelength, p) = Some m \<and> foreground m = []"
    then obtain a p m where "a < animals fl_images" "p \<in> set (pairs fl_images)"
        "frames seg_images (a, reference_wavelength, p) = Some m" "foreground m = []"
      by blast
    then have "(a, reference_wavelength, p) \<in> set (loop_indices fl_images)"
        "?bad (a, reference_wavelength, p)"
      using ref by (simp_all add: set_loop_indices no_reference_object_def)
    then show "list_ex ?bad (loop_indices fl_images)"
      unfolding list_ex_iff by blast
  qed
  show ?thesis
    using run unfolding ex center_and_rotate_pharynxes_def Let_def
    by (auto split: if_splits)
qed

theorem center_and_rotate_pharynxes_no_object_witness:
  "well_formed one_frame_images \<and> well_formed one_frame_empty_mask \<and>
   animals one_frame_empty_mask = animals one_frame_images \<and>
   wavelengths one_frame_empty_mask = wavelengths one_frame_images \<and>
   pairs one_frame_empty_mask = pairs one_frame_images \<and>
   ''410'' \<in> set (wavelengths one_frame_images) \<and>
   center_and_rotate_pharynxes stand_in_library 1 1 one_frame_images one_frame_empty_mask ''410''
     = Inl ValueError"
proof -
  have h: "well_formed one_frame_images" "well_formed one_frame_empty_mask"
    "animals one_frame_empty_mask = animals one_frame_images"
    "wavelengths one_frame_empty_mask = wavelengths one_frame_images"
    "pairs one_frame_empty_mask = pairs one_frame_images"
    "''410'' \<in> set (wavelengths one_frame_images)"
    by (simp_all add: well_formed_def one_frame_images_def one_frame_empty_mask_def loop_indices_def)
  have e: "\<exists>a p m. a < animals one_frame_images \<and> p \<in> set (pairs one_frame_images) \<and>
                frames one_frame_empty_mask (a, ''410'', p) = Some m \<and> foreground m = []"
    by (rule exI [of _ 0], rule exI [of _ 0], rule exI [of _ "[[False]]"])
      (simp add: one_frame_images_def one_frame_empty_mask_def foreground_def)
  show ?thesis
    using center_and_rotate_pharynxes_no_object [OF h, of stand_in_library 1 1] e h by simp
qed

section \<open>Properties of batch sampling\<close>

lemma measure_under_midline_returns:
  "0 \<le> n_points \<Longrightarrow> \<exists>r. measure_under_midline L fl mid n_points thickness ord ns flt = Inr r"
  by (auto simp: measure_under_midline_def np_zeros_row_def split: sum.splits)

lemma loop_three: "loop_indices three_channel_images = [(0, ''410'', 0), (0, ''470'', 0), (0, ''510'', 0)]"
  by (simp add: loop_indices_def three_channel_images_def)

lemma assign_three:
  "assign_wavelength three_channel_midlines ''470'' ''410'' = Inr s \<Longrightarrow>
     frames s (0, ''410'', 0) = Some (Some mid_410) \<and>
     frames s (0, ''470'', 0) = Some (Some mid_410) \<and>
     frames s (0, ''510'', 0) = Some (Some mid_510)"
  by (auto simp: assign_wavelength_def three_channel_midlines_def)

lemma assign_three_ok:
  "\<exists>s. assign_wavelength three_channel_midlines ''470'' ''410'' = Inr s"
  by (simp add: assign_wavelength_def three_channel_midlines_def)

text \<open>
  C7, at a stack with the channels \<open>410\<close>, \<open>470\<close> and \<open>510\<close> and
  \<open>frame_specific = False\<close>: the midline of \<open>410\<close> replaces that of \<open>470\<close> only.  The
  channel \<open>510\<close> keeps its own midline and its frame is sampled under it.
\<close>

theorem measure_under_midlines_only_470_replaced:
  "frames (snd (measure_under_midlines L three_channel_images three_channel_midlines 2 False ord
                  (PyInt 0) True)) (0, ''470'', 0) = Some (Some mid_410) \<and>
   frames (snd (measure_under_midlines L three_channel_images three_channel_midlines 2 False ord
                  (PyInt 0) True)) (0, ''510'', 0) = Some (Some mid_510) \<and>
   map_sum id (\<lambda>profiles. frames profiles (0, ''510'', 0))
     (fst (measure_under_midlines L three_channel_images three_channel_midlines 2 False ord
             (PyInt 0) True))
     = map_sum id Some (measure_under_midline L [[3]] (Some mid_510) 2 (PyInt 0) ord 1 True) \<and>
   mid_510 \<noteq> mid_410"
proof -
  obtain s where s: "assign_wavelength three_channel_midlines ''470'' ''410'' = Inr s"
    using assign_three_ok by blast
  note fr = assign_three [OF s]
  obtain r1 where r1: "measure_under_midline L [[1]] (Some mid_410) 2 (PyInt 0) ord 1 True = Inr r1"
    using measure_under_midline_returns [of 2] by fastforce
  obtain r2 where r2: "measure_under_midline L [[2]] (Some mid_410) 2 (PyInt 0) ord 1 True = Inr r2"
    using measure_under_midline_returns [of 2] by fastforce
  obtain r3 where r3: "measure_under_midline L [[3]] (Some mid_510) 2 (PyInt 0) ord 1 True = Inr r3"
    using measure_under_midline_returns [of 2] by fastforce
  have imgs: "frames three_channel_images (0, ''410'', 0) = Some [[1]]"
    "frames three_channel_images (0, ''470'', 0) = Some [[2]]"
    "frames three_channel_images (0, ''510'', 0) = Some [[3]]"
    by (simp_all add: three_channel_images_def)
  have "collect (measure_frame L three_channel_images s 2 (PyInt 0) ord) (loop_indices three_channel_images)
          = Inr [((0, ''410'', 0), r1), ((0, ''470'', 0), r2), ((0, ''510'', 0), r3)]"
    by (simp add: loop_three measure_frame_def frame_at_def fr imgs r1 r2 r3)
  then show ?thesis
    using s fr r3
    by (simp add: measure_under_midlines_def apply_ufunc_measure_def mid_510_def mid_410_def)
qed

text \<open>
  C9, at the same stack: after the call with \<open>frame_specific = False\<close> the caller's
  \<open>midlines\<close> array is not what it was: its midline of channel \<open>470\<close> has become
  that of channel \<open>410\<close>.
\<close>

theorem measure_under_midlines_mutates_midlines:
  "frames three_channel_midlines (0, ''470'', 0) = Some (Some mid_470) \<and>
   frames (snd (measure_under_midlines L three_channel_images three_channel_midlines 2 False ord
                  (PyInt 0) True)) (0, ''470'', 0) = Some (Some mid_410) \<and>
   snd (measure_under_midlines L three_channel_images three_channel_midlines 2 False ord
          (PyInt 0) True) \<noteq> three_channel_midlines"
proof -
  obtain s where s: "assign_wavelength three_channel_midlines ''470'' ''410'' = Inr s"
    using assign_three_ok by blast
  note fr = assign_three [OF s]
  have a: "frames three_channel_midlines (0, ''470'', 0) = Some (Some mid_470)"
    by (simp add: three_channel_midlines_def)
  have b: "snd (measure_under_midlines L three_channel_images three_channel_midlines 2 False ord
                  (PyInt 0) True) = s"
    using s by (simp add: measure_under_midlines_def)
  have "mid_410 \<noteq> mid_470" by (simp add: mid_410_def mid_470_def)
  then have "s \<noteq> three_channel_midlines" using fr a by auto
  then show ?thesis using a b fr by simp
qed

section \<open>Properties of profile normalisation\<close>

text \<open>
  C3, at a profile of four samples: with \<open>percent_to_clip = 0\<close> the window
  \<open>profiles[:, 0:-0]\<close> is empty, not the whole profile, and the call raises; with
  \<open>percent_to_clip = 25\<close> the window is the two middle samples, so the window of
  the larger percentage is not contained in that of the smaller.
\<close>

theorem clip_window_zero_percent_empty:
  "clip_window [1, 2, 3, 4] 0 = [] \<and>
   clip_window [1, 2, 3, 4] 25 = [2, 3] \<and>
   normalize_images_single_wvl [[[1]]] (Arr2 1 4 [[1, 2, 3, 4]]) 0 = Inl ValueError"
  by (simp add: normalize_images_single_wvl_def normalize_frame_def clip_window_def
      idx_to_clip_def py_int_def py_slice_def Let_def)

section \<open>Properties of segmentation\<close>

lemma greater_than_shape: "map length (greater_than fl t) = map length fl"
  by (simp add: greater_than_def)

lemma concat_nonempty_shape:
  assumes "map length S = map length fl" and "concat fl \<noteq> []"
  shows "concat S \<noteq> []"
proof -
  have "length (concat S) = length (concat fl)"
    using assms(1) by (simp add: length_concat)
  then show ?thesis using assms(2) by (metis length_0_conv)
qed

lemma get_area_returns:
  "concat S \<noteq> [] \<Longrightarrow> \<exists>a. get_area_of_largest_object S = Inr a"
  by (auto simp: get_area_of_largest_object_def regionprops_first_def split: list.splits)

lemma threshold_loop_result:
  assumes "map length S = map length fl" and "concat fl \<noteq> []" and "i \<le> max_iter"
  shows "\<exists>S' i'. threshold_loop fl mx p S area i = Inr (S', i') \<and>
           map length S' = map length fl \<and> i \<le> i' \<and> i' \<le> max_iter"
  using assms
proof (induction fl mx p S area i rule: threshold_loop.induct)
  case (1 fl mx p S area i)
  obtain a where a: "get_area_of_largest_object S = Inr a"
    using get_area_returns concat_nonempty_shape [OF "1.prems"(1,2)] by blast
  show ?case
  proof (cases "(min_area > area \<or> area > max_area) \<and> i < max_iter \<and>
                \<not> next_p p a < 0 \<and> \<not> next_p p a > 0.9")
    case True
    let ?p = "next_p p a"
    have ih: "\<exists>S' i'. threshold_loop fl mx ?p (greater_than fl (mx * ?p)) a (i + 1) = Inr (S', i') \<and>
           map length S' = map length fl \<and> i + 1 \<le> i' \<and> i' \<le> max_iter"
      using True "1.prems"(2)
      by (intro "1.IH" [OF _ _ a refl refl refl]) (auto simp: greater_than_shape)
    have "threshold_loop fl mx p S area i = threshold_loop fl mx ?p (greater_than fl (mx * ?p)) a (i + 1)"
      using True a by (subst threshold_loop.simps) (auto simp: Let_def)
    then show ?thesis using ih by auto
  next
    case False
    then show ?thesis using "1.prems" a
      by (subst threshold_loop.simps) (auto simp: Let_def greater_than_shape)
  qed
qed

lemma threshold_loop_default:
  assumes "min_area > area \<or> area > max_area" and "i < max_iter"
    and "get_area_of_largest_object S = Inr a"
    and "next_p p a < 0 \<or> next_p p a > 0.9"
  shows "threshold_loop fl mx p S area i = Inr (greater_than fl (mx * 0.15), Suc i)"
  using assms by (subst threshold_loop.simps) (auto simp: Let_def)

lemma img_max_nonempty: "concat img \<noteq> [] \<Longrightarrow> \<exists>mx. img_max img = Inr mx"
  by (cases "concat img") (simp_all add: img_max_def)

lemma tl_410: "py_in ''tl'' (py_lower ''410'') = False"
  by code_simp

text \<open>
  C10 (as amended).  On a transmitted-light frame, and on every frame with at least
  one pixel, \<open>segment_pharynx\<close> returns a mask of the shape of its input, after at
  most \<open>max_iter = 300\<close> increments of the loop counter; and an iteration whose
  threshold fraction leaves \<open>[0, 0.9]\<close> returns the mask of the default threshold
  \<open>0.15 * max\<close> at once.
\<close>

theorem segment_pharynx_returns:
  assumes "py_in ''tl'' (py_lower (wavelength fl_img)) \<or> concat (pixels fl_img) \<noteq> []"
  shows "(\<exists>S i. segment_pharynx fl_img = Inr (S, i) \<and>
                map length S = map length (pixels fl_img) \<and> i \<le> 300) \<and>
         ((min_area > area \<or> area > max_area) \<and> i0 < max_iter \<and>
          get_area_of_largest_object S0 = Inr a \<and> (next_p p a < 0 \<or> next_p p a > 0.9) \<longrightarrow>
            threshold_loop fl mx p S0 area i0 = Inr (greater_than fl (mx * 0.15), Suc i0))"
proof (intro conjI impI)
  show "\<exists>S i. segment_pharynx fl_img = Inr (S, i) \<and>
                map length S = map length (pixels fl_img) \<and> i \<le> 300"
  proof (cases "py_in ''tl'' (py_lower (wavelength fl_img))")
    case True
    then show ?thesis by (simp add: segment_pharynx_def zeros_like_def)
  next
    case False
    then have ne: "concat (pixels fl_img) \<noteq> []" using assms by blast
    then obtain mx' where mx': "img_max (pixels fl_img) = Inr mx'"
      using img_max_nonempty by blast
    let ?S = "greater_than (pixels fl_img) (mx' * 0.15)"
    have sh: "map length ?S = map length (pixels fl_img)" by (rule greater_than_shape)
    obtain a0 where a0: "get_area_of_largest_object ?S = Inr a0"
      using get_area_returns concat_nonempty_shape [OF sh ne] by blast
    obtain S' i' where r: "threshold_loop (pixels fl_img) mx' 0.15 ?S a0 0 = Inr (S', i')"
        "map length S' = map length (pixels fl_img)" "i' \<le> max_iter"
      using threshold_loop_result [OF sh ne, of 0 mx' "0.15" a0] by auto
    have "segment_pharynx fl_img = Inr (S', i')"
      using False mx' a0 r(1) by (simp add: segment_pharynx_def Let_def)
    then show ?thesis using r(2,3) by (simp add: max_iter_def)
  qed
next
  assume "(min_area > area \<or> area > max_area) \<and> i0 < max_iter \<and>
          get_area_of_largest_object S0 = Inr a \<and> (next_p p a < 0 \<or> next_p p a > 0.9)"
  then show "threshold_loop fl mx p S0 area i0 = Inr (greater_than fl (mx * 0.15), Suc i0)"
    using threshold_loop_default by blast
qed

theorem segment_pharynx_returns_witness:
  "(\<exists>S i. segment_pharynx \<lparr>wavelength = ''410'', pixels = [[1]]\<rparr> = Inr (S, i) \<and>
          map length S = [1] \<and> i \<le> 300) \<and>
   threshold_loop [[1]] 1 0 [[False]] 0 0 = Inr (greater_than [[1]] (1 * 0.15), Suc 0)"
proof -
  have a: "get_area_of_largest_object [[False]] = Inr 0" by code_simp
  have b: "next_p 0 0 < 0" by (simp add: next_p_def min_area_def max_area_def)
  show ?thesis
    using segment_pharynx_returns
      [of "\<lparr>wavelength = ''410'', pixels = [[1]]\<rparr>" 0 0 "[[False]]" 0 0 "[[1]]" 1]
    by (simp add: a b min_area_def max_area_def max_iter_def)
qed

text \<open>
  C10 as stated fails on a frame with no pixel: \<open>fl_img.max()\<close> raises
  \<open>ValueError\<close>, and no mask is returned.
\<close>

theorem segment_pharynx_empty_image_raises:
  "segment_pharynx \<lparr>wavelength = ''410'', pixels = []\<rparr> = Inl ValueError"
  by (simp add: segment_pharynx_def tl_410 img_max_def)

end
